theory Spec2Isabelle
  imports Complex_Main
begin

section \<open>Telemetry forwarding plugins: the ABRP change gate and route session\<close>

text \<open>
  The development embeds \<^verbatim>\<open>src/plugin/abrp/sendlivedata2abrp.js\<close> (version 2.0), the
  \<^verbatim>\<open>startRoute\<close> of its predecessor \<^verbatim>\<open>abrp2.js\<close> and the subscription toggles of
  \<^verbatim>\<open>src/plugin/slack/slack.js\<close>.  Module variables become the fields of a record that
  every operation takes and returns.  The host runtime (PubSub, print, OvmsNotify, HTTP)
  is observed through further fields of the same record; what the host answers during
  one operation (configuration values, metrics, or a value it throws instead) is the
  \<open>env\<close> argument of that operation.
\<close>

subsection \<open>Values\<close>

text \<open>
  A JavaScript number is a finite value, an infinity or NaN.  \<^verbatim>\<open>Number(x)\<close> is NaN
  for an undefined or non-numeric \<open>x\<close>, and so is \<^verbatim>\<open>Math.floor\<close> of it.  Finite
  values are kept as reals: the one sum the source forms, \<^verbatim>\<open>soh + soc\<close>, is only
  compared with zero, and a sum of two finite doubles is the double zero exactly when
  it is zero as a real.
\<close>

datatype number = Num real | PosInf | NegInf | NaN

fun js_add :: "number \<Rightarrow> number \<Rightarrow> number" where
  "js_add NaN b = NaN"
| "js_add a NaN = NaN"
| "js_add PosInf NegInf = NaN"
| "js_add NegInf PosInf = NaN"
| "js_add PosInf b = PosInf"
| "js_add a PosInf = PosInf"
| "js_add NegInf b = NegInf"
| "js_add a NegInf = NegInf"
| "js_add (Num a) (Num b) = Num (a + b)"

datatype jsval = JNumber number | JString string | JUndefined

text \<open>
  Strict inequality \<^verbatim>\<open>!==\<close>: values of different types differ, and NaN differs from
  every number, itself included.
\<close>

fun strict_neq :: "jsval \<Rightarrow> jsval \<Rightarrow> bool" where
  "strict_neq (JNumber a) (JNumber b) = (a = NaN \<or> b = NaN \<or> a \<noteq> b)"
| "strict_neq a b = (a \<noteq> b)"

text \<open>
  What a \<^verbatim>\<open>catch\<close> clause or a \<^verbatim>\<open>fail\<close> callback can receive: an Error object
  with its message, a string, \<^verbatim>\<open>null\<close> or \<^verbatim>\<open>undefined\<close>.  Reading
  \<^verbatim>\<open>error.message\<close> gives the message of an Error object and \<^verbatim>\<open>undefined\<close> for a
  string, and throws a TypeError for \<^verbatim>\<open>null\<close> and \<^verbatim>\<open>undefined\<close> (the engine's
  wording of that TypeError is not modelled).
\<close>

datatype thrown = Error string | Str string | Null | Undefined

definition TypeError :: thrown where
  "TypeError = Error ''cannot read property message''"

fun message :: "thrown \<Rightarrow> thrown + string" where
  "message (Error m) = Inr m"
| "message (Str x) = Inr ''undefined''"
| "message Null = Inl TypeError"
| "message Undefined = Inl TypeError"

text \<open>
  The object literal that \<^verbatim>\<open>getTelemetry\<close> returns.  \<open>lat\<close>, \<open>lon\<close>, \<open>alt\<close>
  and \<open>power\<close> are the strings that \<^verbatim>\<open>toFixed\<close> returns; the other fields but
  \<open>car_model\<close> are numbers.
\<close>

record telemetry =
  utc :: number
  soc :: number
  soh :: number
  speed :: number
  car_model :: string
  lat :: string
  lon :: string
  alt :: string
  ext_temp :: number
  is_charging :: number
  batt_temp :: number
  voltage :: number
  current :: number
  power_kw :: string

text \<open>Property access by name, \<^verbatim>\<open>telemetry[indicator]\<close>.\<close>

definition property :: "telemetry \<Rightarrow> string \<Rightarrow> jsval" where
  "property t name =
     (if name = ''utc'' then JNumber (utc t)
      else if name = ''soc'' then JNumber (soc t)
      else if name = ''soh'' then JNumber (soh t)
      else if name = ''speed'' then JNumber (speed t)
      else if name = ''car_model'' then JString (car_model t)
      else if name = ''lat'' then JString (lat t)
      else if name = ''lon'' then JString (lon t)
      else if name = ''alt'' then JString (alt t)
      else if name = ''ext_temp'' then JNumber (ext_temp t)
      else if name = ''is_charging'' then JNumber (is_charging t)
      else if name = ''batt_temp'' then JNumber (batt_temp t)
      else if name = ''voltage'' then JNumber (voltage t)
      else if name = ''current'' then JNumber (current t)
      else if name = ''power'' then JString (power_kw t)
      else JUndefined)"

definition telemetryChangedIndicators :: "string list" where
  "telemetryChangedIndicators =
     [''soc'', ''soh'', ''lat'', ''lon'', ''alt'', ''is_charging'', ''batt_temp'', ''ext_temp'']"

subsection \<open>Host and module state\<close>

datatype callback = OnTicker | OnVehicleOn | OnVehicleOff | Foreign nat

text \<open>
  PubSub keeps its subscribers in order; a token is the running number that
  \<^verbatim>\<open>subscribe\<close> hands out.  Other scripts share the bus (\<open>Foreign\<close> callbacks).
\<close>

record pubsub =
  lastUid :: nat
  subscribers :: "(nat \<times> string \<times> callback) list"

datatype printed =
    Line string
  | Print_Config "(string \<times> string) list"
  | Print_Sending string telemetry
  | Print_Changed bool
  | Print_Error string thrown

record state =
  vehicleOnSubscription :: "nat option"
  vehicleOffSubscription :: "nat option"
  tickerSubscription :: "nat option"
  currentTelemetry :: "telemetry option"
  configuration :: "(string \<rightharpoonup> string) option"
  bus :: pubsub
  console :: "printed list"
  notifications :: "(string \<times> string \<times> string) list"
  http_requests :: "(string \<times> telemetry) list"

text \<open>
  What the host answers during one operation: the values of
  \<^verbatim>\<open>OvmsConfig.GetValues('usr', 'abrp.')\<close> or the value it throws, the record built
  from the metric reads or the value a read throws, and the values that
  \<^verbatim>\<open>HTTP.Request\<close>, \<^verbatim>\<open>PubSub.subscribe\<close> and \<^verbatim>\<open>PubSub.unsubscribe\<close> throw at the
  call, if any.  A PubSub call that throws leaves the bus as it was.
\<close>

record env =
  config_values :: "thrown + (string \<rightharpoonup> string)"
  metric_values :: "thrown + telemetry"
  request_error :: "thrown option"
  subscribe_error :: "thrown option"
  unsubscribe_error :: "thrown option"

datatype response = Done nat | Fail thrown

definition VehicleOn :: string where "VehicleOn = ''vehicle.on''"
definition VehicleOff :: string where "VehicleOff = ''vehicle.off''"
definition Ticker :: string where "Ticker = ''ticker.60''"

definition OVMS_API_KEY :: string where
  "OVMS_API_KEY = ''32b2162f-9599-4647-8139-66e9f9528370''"

definition defaultConfiguration :: "string \<rightharpoonup> string" where
  "defaultConfiguration =
     [''url'' \<mapsto> ''http://api.iternio.com/1/tlm/send'',
      ''car_model'' \<mapsto> ''@@:@@:@@:@@:@@'',
      ''user_token'' \<mapsto> ''@@@@@@@@-@@@@-@@@@-@@@@-@@@@@@@@@@@@'']"

definition newline :: string where
  "newline = [CHR 0x0A]"

subsection \<open>Host primitives\<close>

definition print :: "printed \<Rightarrow> state \<Rightarrow> state" where
  "print x s = s\<lparr>console := console s @ [x]\<rparr>"

definition OvmsNotify_Raise :: "string \<Rightarrow> string \<Rightarrow> string \<Rightarrow> state \<Rightarrow> state" where
  "OvmsNotify_Raise severity channel text s =
     s\<lparr>notifications := notifications s @ [(severity, channel, text)]\<rparr>"

text \<open>The two PubSub calls when they return.\<close>

definition PubSub_subscribe :: "string \<Rightarrow> callback \<Rightarrow> state \<Rightarrow> nat \<times> state" where
  "PubSub_subscribe topic cb s =
     (let token = Suc (lastUid (bus s))
      in (token,
          s\<lparr>bus := (bus s)\<lparr>lastUid := token,
                             subscribers := subscribers (bus s) @ [(token, topic, cb)]\<rparr>\<rparr>))"

definition PubSub_unsubscribe :: "nat \<Rightarrow> state \<Rightarrow> state" where
  "PubSub_unsubscribe token s =
     s\<lparr>bus := (bus s)\<lparr>subscribers := filter (\<lambda>x. fst x \<noteq> token) (subscribers (bus s))\<rparr>\<rparr>"

text \<open>The live subscriptions of one callback on one topic.\<close>

definition live :: "string \<Rightarrow> callback \<Rightarrow> state \<Rightarrow> (nat \<times> string \<times> callback) list" where
  "live topic cb s = filter (\<lambda>x. snd x = (topic, cb)) (subscribers (bus s))"

subsection \<open>Exceptions\<close>

text \<open>
  A statement that may throw returns \<open>Inl\<close> of the thrown value together with the state
  reached at the throw.  \<open>try_catch\<close> is the \<^verbatim>\<open>try { ... } catch (error) { ... }\<close>
  block: what the handler throws leaves the block.
\<close>

type_synonym 'a result = "(thrown + 'a) \<times> state"

definition try_catch ::
  "(state \<Rightarrow> unit result) \<Rightarrow> (thrown \<Rightarrow> state \<Rightarrow> unit result) \<Rightarrow> state \<Rightarrow> unit result" where
  "try_catch body handler s =
     (case body s of
        (Inl err, s') \<Rightarrow> handler err s'
      | (Inr u, s') \<Rightarrow> (Inr u, s'))"

text \<open>Two statements in a row: the second runs when the first has not thrown.\<close>

definition seq ::
  "(state \<Rightarrow> unit result) \<Rightarrow> (state \<Rightarrow> unit result) \<Rightarrow> state \<Rightarrow> unit result" where
  "seq first second s =
     (case first s of
        (Inl err, s') \<Rightarrow> (Inl err, s')
      | (Inr u, s') \<Rightarrow> second s')"

subsection \<open>sendlivedata2abrp.js\<close>

text \<open>
  \<^verbatim>\<open>handleError\<close> prints first; the argument of \<^verbatim>\<open>OvmsNotify.Raise\<close> reads
  \<^verbatim>\<open>error.message\<close>, so a TypeError of that read leaves the function before the
  notification is raised.
\<close>

definition handleError :: "thrown \<Rightarrow> string \<Rightarrow> state \<Rightarrow> unit result" where
  "handleError err context s =
     (let s1 = print (Print_Error context err) s
      in (case message err of
            Inl type_error \<Rightarrow> (Inl type_error, s1)
          | Inr m \<Rightarrow>
              (Inr (),
               OvmsNotify_Raise ''error'' ''usr.abrp.status'' (context @ '' error  - '' @ m) s1)))"

definition lookup :: "(string \<rightharpoonup> string) \<Rightarrow> string \<Rightarrow> string" where
  "lookup obj name = (case obj name of Some v \<Rightarrow> v | None \<Rightarrow> ''undefined'')"

definition loadConfig :: "env \<Rightarrow> state \<Rightarrow> (string \<rightharpoonup> string) result" where
  "loadConfig e s =
     (case configuration s of
        Some config \<Rightarrow> (Inr config, s)
      | None \<Rightarrow>
          (case config_values e of
             Inl err \<Rightarrow> (Inl err, s)
           | Inr vals \<Rightarrow>
               (let config = defaultConfiguration ++ vals
                in (Inr config,
                    print (Print_Config
                             [(''url'', lookup config ''url''),
                              (''car_model'', lookup config ''car_model''),
                              (''user_token'', lookup config ''user_token'')])
                      (s\<lparr>configuration := Some config\<rparr>)))))"

definition unloadConfig :: "state \<Rightarrow> state" where
  "unloadConfig s = s\<lparr>configuration := None\<rparr>"

text \<open>
  The request URL without its last component: the source appends
  \<^verbatim>\<open>encodeURIComponent(JSON.stringify(telemetry))\<close>, which is kept here as the
  telemetry record itself, paired with the prefix.  \<open>http_requests\<close> lists the calls
  of \<^verbatim>\<open>HTTP.Request\<close> in order, also a call that then throws.
\<close>

definition url_prefix :: "(string \<rightharpoonup> string) \<Rightarrow> string" where
  "url_prefix config =
     lookup config ''url'' @ ''?api_key='' @ OVMS_API_KEY @ ''&token='' @
     lookup config ''user_token'' @ ''&tlm=''"

definition updateAbrp :: "env \<Rightarrow> telemetry \<Rightarrow> state \<Rightarrow> unit result" where
  "updateAbrp e t s =
     (case loadConfig e s of
        (Inl err, s1) \<Rightarrow> (Inl err, s1)
      | (Inr config, s1) \<Rightarrow>
          (let url = url_prefix config;
               s2 = print (Print_Sending url t) s1;
               s3 = s2\<lparr>http_requests := http_requests s2 @ [(url, t)]\<rparr>
           in (case request_error e of
                 Some err \<Rightarrow> (Inl err, s3)
               | None \<Rightarrow> (Inr (), s3))))"

text \<open>
  The \<^verbatim>\<open>done\<close> and \<^verbatim>\<open>fail\<close> callbacks handed to \<^verbatim>\<open>HTTP.Request\<close>; the host
  calls them later with a response or with what went wrong.
\<close>

fun digits :: "nat \<Rightarrow> string" where
  "digits n =
     (if n < 10 then [char_of (48 + n)]
      else digits (n div 10) @ [char_of (48 + n mod 10)])"

definition http_done :: "nat \<Rightarrow> state \<Rightarrow> unit result" where
  "http_done statusCode s =
     (if statusCode \<noteq> 200
      then handleError (Error (''Unexpected status code ['' @ digits statusCode @ '']''))
             ''Http request'' s
      else (Inr (), s))"

definition http_fail :: "thrown \<Rightarrow> state \<Rightarrow> unit result" where
  "http_fail err s = handleError err ''HTTP request'' s"

fun http_callback :: "response \<Rightarrow> state \<Rightarrow> unit result" where
  "http_callback (Done statusCode) s = http_done statusCode s"
| "http_callback (Fail err) s = http_fail err s"

definition getTelemetry :: "env \<Rightarrow> state \<Rightarrow> telemetry result" where
  "getTelemetry e s =
     (case loadConfig e s of
        (Inl err, s1) \<Rightarrow> (Inl err, s1)
      | (Inr config, s1) \<Rightarrow>
          (case metric_values e of
             Inl err \<Rightarrow> (Inl err, s1)
           | Inr m \<Rightarrow> (Inr (m\<lparr>car_model := lookup config ''car_model''\<rparr>), s1)))"

definition isTelemetryValidAndHasChanged ::
  "telemetry \<Rightarrow> telemetry \<Rightarrow> state \<Rightarrow> bool \<times> state" where
  "isTelemetryValidAndHasChanged previousTelemetry nextTelemetry s =
     (if js_add (soh nextTelemetry) (soc nextTelemetry) = Num 0
      then (False,
            print (Line (''Telemetry invalid, canbus not readable: reset module and then put motors on''
                         @ newline)) s)
      else
        (let changed =
               list_ex (\<lambda>indicator. strict_neq (property previousTelemetry indicator)
                                               (property nextTelemetry indicator))
                 telemetryChangedIndicators
         in (changed, print (Print_Changed changed) s)))"

text \<open>
  The condition of the \<^verbatim>\<open>if\<close> in \<^verbatim>\<open>sendTelemetry\<close>:
  \<^verbatim>\<open>!currentTelemetry || forceAbrpUpdate || isTelemetryValidAndHasChanged(...)\<close>,
  evaluated left to right with short circuit.
\<close>

definition sendTelemetry_condition :: "bool \<Rightarrow> telemetry \<Rightarrow> state \<Rightarrow> bool \<times> state" where
  "sendTelemetry_condition forceAbrpUpdate t s =
     (case currentTelemetry s of
        None \<Rightarrow> (True, s)
      | Some previous \<Rightarrow>
          (if forceAbrpUpdate then (True, s)
           else isTelemetryValidAndHasChanged previous t s))"

definition sendTelemetry_try :: "bool \<Rightarrow> env \<Rightarrow> state \<Rightarrow> unit result" where
  "sendTelemetry_try forceAbrpUpdate e s =
     (case getTelemetry e s of
        (Inl err, s1) \<Rightarrow> (Inl err, s1)
      | (Inr t, s1) \<Rightarrow>
          (case sendTelemetry_condition forceAbrpUpdate t s1 of
             (True, s2) \<Rightarrow> updateAbrp e t (s2\<lparr>currentTelemetry := Some t\<rparr>)
           | (False, s2) \<Rightarrow> (Inr (), s2)))"

definition sendTelemetry :: "bool \<Rightarrow> env \<Rightarrow> state \<Rightarrow> unit result" where
  "sendTelemetry forceAbrpUpdate e =
     try_catch (sendTelemetry_try forceAbrpUpdate e)
       (\<lambda>err s. handleError err ''Send telemetry'' s)"

definition startRoute_try :: "env \<Rightarrow> state \<Rightarrow> unit result" where
  "startRoute_try e s =
     seq (sendTelemetry True e)
       (seq (\<lambda>s1. case tickerSubscription s1 of
                     Some token \<Rightarrow> (Inr (), s1)
                   | None \<Rightarrow>
                       (case subscribe_error e of
                          Some err \<Rightarrow> (Inl err, s1)
                        | None \<Rightarrow>
                            (case PubSub_subscribe Ticker OnTicker s1 of
                               (token, s2) \<Rightarrow> (Inr (), s2\<lparr>tickerSubscription := Some token\<rparr>))))
          (\<lambda>s3. (Inr (),
                  OvmsNotify_Raise ''info'' ''usr.abrp.status'' ''ABRP route started''
                    (print (Line (''Starting route - subscribed to ticker'' @ newline)) s3))))
       (unloadConfig s)"

definition startRoute :: "env \<Rightarrow> state \<Rightarrow> unit result" where
  "startRoute e =
     try_catch (startRoute_try e) (\<lambda>err s. handleError err ''Start route'' s)"

definition endRoute_try :: "env \<Rightarrow> state \<Rightarrow> unit result" where
  "endRoute_try e s =
     seq (\<lambda>s1. case tickerSubscription s1 of
                  None \<Rightarrow> (Inr (), s1)
                | Some token \<Rightarrow>
                    (case unsubscribe_error e of
                       Some err \<Rightarrow> (Inl err, s1)
                     | None \<Rightarrow> (Inr (), (PubSub_unsubscribe token s1)\<lparr>tickerSubscription := None\<rparr>)))
       (\<lambda>s2. (Inr (),
               OvmsNotify_Raise ''info'' ''usr.abrp.status'' ''ABRP route ended''
                 (print (Line (''Ending route - unsubscribed from ticker'' @ newline)) s2)))
       ((unloadConfig s)\<lparr>currentTelemetry := None\<rparr>)"

definition endRoute :: "env \<Rightarrow> state \<Rightarrow> unit result" where
  "endRoute e =
     try_catch (endRoute_try e) (\<lambda>err s. handleError err ''End route'' s)"

text \<open>
  \<^verbatim>\<open>exports.autoSend\<close>.  The function has no \<^verbatim>\<open>try\<close> block; it is taken on a
  bus whose calls return.
\<close>

definition autoSend :: "bool \<Rightarrow> state \<Rightarrow> state" where
  "autoSend enable s =
     (if enable then
        (let s1 = (case vehicleOnSubscription s of
                     None \<Rightarrow>
                       (case PubSub_subscribe VehicleOn OnVehicleOn s of
                          (token, s') \<Rightarrow>
                            print (Line (''Vehicle on subscribed to'' @ newline))
                              (s'\<lparr>vehicleOnSubscription := Some token\<rparr>))
                   | Some token \<Rightarrow> s);
             s2 = (case vehicleOffSubscription s1 of
                     None \<Rightarrow>
                       (case PubSub_subscribe VehicleOff OnVehicleOff s1 of
                          (token, s') \<Rightarrow>
                            print (Line (''Vehicle off subscribed to'' @ newline))
                              (s'\<lparr>vehicleOffSubscription := Some token\<rparr>))
                   | Some token \<Rightarrow> s1)
         in print (Line (''Vehicle on and off topics subscribed'' @ newline)) s2)
      else
        (let s1 = (case vehicleOnSubscription s of
                     Some token \<Rightarrow> (PubSub_unsubscribe token s)\<lparr>vehicleOnSubscription := None\<rparr>
                   | None \<Rightarrow> s);
             s2 = (case vehicleOffSubscription s1 of
                     Some token \<Rightarrow> (PubSub_unsubscribe token s1)\<lparr>vehicleOffSubscription := None\<rparr>
                   | None \<Rightarrow> s1)
         in print (Line (''Vehicle on and off topics unsubscribed'' @ newline)) s2))"

text \<open>The callbacks that \<^verbatim>\<open>autoSend\<close> subscribes.\<close>

definition vehicleOn_callback :: "env \<Rightarrow> state \<Rightarrow> unit result" where
  "vehicleOn_callback e s =
     startRoute e (OvmsNotify_Raise ''info'' ''usr.abrp.status'' ''Vehicle on - starting route'' s)"

definition vehicleOff_callback :: "env \<Rightarrow> state \<Rightarrow> unit result" where
  "vehicleOff_callback e s =
     endRoute e (OvmsNotify_Raise ''info'' ''usr.abrp.status'' ''Vehicle off - ending route'' s)"

subsection \<open>abrp2.js: the earlier \<^verbatim>\<open>startRoute\<close> and \<^verbatim>\<open>endRoute\<close>\<close>

text \<open>
  The file declares the same five module variables (\<^verbatim>\<open>config\<close> for
  \<^verbatim>\<open>configuration\<close>); its \<^verbatim>\<open>handleError\<close> prefixes the printed line.  Both
  functions are taken on a bus whose calls return.
\<close>

definition abrp2_handleError :: "thrown \<Rightarrow> string \<Rightarrow> state \<Rightarrow> unit result" where
  "abrp2_handleError err context s =
     (let s1 = print (Print_Error (''ABRP::'' @ context) err) s
      in (case message err of
            Inl type_error \<Rightarrow> (Inl type_error, s1)
          | Inr m \<Rightarrow>
              (Inr (),
               OvmsNotify_Raise ''error'' ''usr.abrp.status'' (context @ '' error  - '' @ m) s1)))"

definition abrp2_startRoute_try :: "state \<Rightarrow> unit result" where
  "abrp2_startRoute_try s =
     (let s1 = s\<lparr>currentTelemetry := None, configuration := None\<rparr>
      in (case PubSub_subscribe Ticker OnTicker s1 of
            (token, s2) \<Rightarrow>
              (Inr (),
               OvmsNotify_Raise ''info'' ''usr.abrp.status'' ''ABRP route started''
                 (print (Line (''ABRP::Starting route - subscribed to interval topic'' @ newline))
                    (s2\<lparr>tickerSubscription := Some token\<rparr>)))))"

definition abrp2_startRoute :: "state \<Rightarrow> unit result" where
  "abrp2_startRoute =
     try_catch abrp2_startRoute_try (\<lambda>err s. abrp2_handleError err ''Start route'' s)"

definition abrp2_endRoute_try :: "state \<Rightarrow> unit result" where
  "abrp2_endRoute_try s =
     (let s1 = s\<lparr>currentTelemetry := None, configuration := None\<rparr>;
          s2 = (case tickerSubscription s1 of
                  Some token \<Rightarrow> (PubSub_unsubscribe token s1)\<lparr>tickerSubscription := None\<rparr>
                | None \<Rightarrow> s1)
      in (Inr (),
          OvmsNotify_Raise ''info'' ''usr.abrp.status'' ''ABRP route ended''
            (print (Line (''ABRP::Ending route - unsubscribed from interval topic'' @ newline)) s2)))"

definition abrp2_endRoute :: "state \<Rightarrow> unit result" where
  "abrp2_endRoute =
     try_catch abrp2_endRoute_try (\<lambda>err s. abrp2_handleError err ''End route'' s)"

subsection \<open>slack.js\<close>

text \<open>
  \<^verbatim>\<open>exports.enableSendBetweenVehicleOnAndOff\<close>.  The file declares the three
  subscription variables only; the callbacks are its own \<^verbatim>\<open>vehicleOn\<close> and
  \<^verbatim>\<open>vehicleOff\<close>.  As \<^verbatim>\<open>autoSend\<close>, it is taken on a bus whose calls return.
\<close>

definition enableSendBetweenVehicleOnAndOff :: "state \<Rightarrow> state" where
  "enableSendBetweenVehicleOnAndOff s =
     (let s1 = (case vehicleOnSubscription s of
                  None \<Rightarrow>
                    (case PubSub_subscribe VehicleOn OnVehicleOn s of
                       (token, s') \<Rightarrow>
                         print (Line (''Vehicle on subscribed to'' @ newline))
                           (s'\<lparr>vehicleOnSubscription := Some token\<rparr>))
                | Some token \<Rightarrow> s);
          s2 = (case vehicleOffSubscription s1 of
                  None \<Rightarrow>
                    (case PubSub_subscribe VehicleOff OnVehicleOff s1 of
                       (token, s') \<Rightarrow>
                         print (Line (''Vehicle off subscribed to'' @ newline))
                           (s'\<lparr>vehicleOffSubscription := Some token\<rparr>))
                | Some token \<Rightarrow> s1)
      in print (Line (''Vehicle on and off topics subscribed'' @ newline)) s2)"

subsection \<open>Runs and concrete inputs\<close>

text \<open>A run of \<^verbatim>\<open>startRoute\<close> calls, one host answer per call.\<close>

definition startRoutes :: "env list \<Rightarrow> state \<Rightarrow> state" where
  "startRoutes es s = fold (\<lambda>e s'. snd (startRoute e s')) es s"

text \<open>The callbacks of earlier requests, delivered in order.\<close>

definition http_callbacks :: "response list \<Rightarrow> state \<Rightarrow> state" where
  "http_callbacks rs s = fold (\<lambda>r s'. snd (http_callback r s')) rs s"

text \<open>Two samples agree on the watched fields; a watched number of a sample is NaN.\<close>

definition same_watched :: "telemetry \<Rightarrow> telemetry \<Rightarrow> bool" where
  "same_watched a b =
     (soc a = soc b \<and> soh a = soh b \<and> lat a = lat b \<and> lon a = lon b \<and> alt a = alt b \<and>
      is_charging a = is_charging b \<and> batt_temp a = batt_temp b \<and> ext_temp a = ext_temp b)"

definition nan_watched :: "telemetry \<Rightarrow> bool" where
  "nan_watched t =
     (soc t = NaN \<or> soh t = NaN \<or> is_charging t = NaN \<or> batt_temp t = NaN \<or> ext_temp t = NaN)"

text \<open>\<^verbatim>\<open>error.message\<close> can be read: the value is neither null nor undefined.\<close>

definition has_message :: "thrown \<Rightarrow> bool" where
  "has_message v = (v \<noteq> Null \<and> v \<noteq> Undefined)"

text \<open>The module right after loading: \<^verbatim>\<open>print('Module loaded')\<close> has run.\<close>

definition loaded :: state where
  "loaded =
     \<lparr>vehicleOnSubscription = None, vehicleOffSubscription = None, tickerSubscription = None,
      currentTelemetry = None, configuration = None,
      bus = \<lparr>lastUid = 0, subscribers = []\<rparr>,
      console = [Line ''Module loaded''], notifications = [], http_requests = []\<rparr>"

definition parked :: telemetry where
  "parked =
     \<lparr>utc = Num 1600000000, soc = Num 80, soh = Num 95, speed = Num 0,
      car_model = ''@@:@@:@@:@@:@@'', lat = ''37.771'', lon = ''-122.420'', alt = ''12.0'',
      ext_temp = Num 18, is_charging = Num 0, batt_temp = Num 21, voltage = Num 360,
      current = Num 0, power_kw = ''0.0''\<rparr>"

definition unreadable :: telemetry where
  "unreadable =
     \<lparr>utc = Num 1600000060, soc = Num 0, soh = Num 0, speed = Num 0,
      car_model = ''@@:@@:@@:@@:@@'', lat = ''0.000'', lon = ''0.000'', alt = ''0.0'',
      ext_temp = Num 0, is_charging = Num 0, batt_temp = Num 0, voltage = Num 0,
      current = Num 0, power_kw = ''0.0''\<rparr>"

text \<open>The sample of a vehicle whose state of health is not a number.\<close>

definition faded :: telemetry where
  "faded = parked\<lparr>soh := NaN\<rparr>"

definition host :: "telemetry \<Rightarrow> env" where
  "host t =
     \<lparr>config_values = Inr Map.empty, metric_values = Inr t, request_error = None,
      subscribe_error = None, unsubscribe_error = None\<rparr>"

text \<open>
  The loaded module with its configuration read: before a first sample, and with
  \<open>parked\<close> or \<open>faded\<close> as the current one.
\<close>

definition configured :: state where
  "configured = loaded\<lparr>configuration := Some defaultConfiguration\<rparr>"

definition sampled :: state where
  "sampled = configured\<lparr>currentTelemetry := Some parked\<rparr>"

definition dimmed :: state where
  "dimmed = configured\<lparr>currentTelemetry := Some faded\<rparr>"

text \<open>
  Hosts that fail: the transport throws at the call; the metrics cannot be read; a
  metric read throws \<^verbatim>\<open>null\<close>; the bus throws at \<^verbatim>\<open>subscribe\<close> and at
  \<^verbatim>\<open>unsubscribe\<close>.
\<close>

definition offline :: "telemetry \<Rightarrow> env" where
  "offline t = (host t)\<lparr>request_error := Some (Error ''Transport unavailable'')\<rparr>"

definition blind :: env where
  "blind = (host parked)\<lparr>metric_values := Inl (Error ''Metric unavailable'')\<rparr>"

definition rude :: env where
  "rude = (host parked)\<lparr>metric_values := Inl Null\<rparr>"

definition jammed :: env where
  "jammed =
     (host parked)\<lparr>subscribe_error := Some (Error ''Bus unavailable''),
                   unsubscribe_error := Some (Error ''Bus unavailable'')\<rparr>"

text \<open>A host whose bus throws \<^verbatim>\<open>null\<close> and \<^verbatim>\<open>undefined\<close>.\<close>

definition hostile :: env where
  "hostile = (host parked)\<lparr>subscribe_error := Some Null, unsubscribe_error := Some Undefined\<rparr>"

text \<open>The module during a route: one ticker subscription, \<open>parked\<close> the current sample.\<close>

definition routed :: state where
  "routed =
     sampled\<lparr>tickerSubscription := Some 1,
             bus := \<lparr>lastUid = 1, subscribers = [(1, ''ticker.60'', OnTicker)]\<rparr>\<rparr>"


section \<open>Properties\<close>

lemmas concrete_defs =
  loaded_def configured_def sampled_def dimmed_def parked_def unreadable_def faded_def
  host_def offline_def blind_def rude_def jammed_def hostile_def routed_def
  defaultConfiguration_def lookup_def
  getTelemetry_def loadConfig_def sendTelemetry_def sendTelemetry_try_def
  sendTelemetry_condition_def isTelemetryValidAndHasChanged_def updateAbrp_def url_prefix_def
  try_catch_def handleError_def print_def OvmsNotify_Raise_def Let_def
  telemetryChangedIndicators_def property_def OVMS_API_KEY_def TypeError_def

lemmas bus_defs =
  PubSub_subscribe_def PubSub_unsubscribe_def live_def print_def OvmsNotify_Raise_def Let_def
  VehicleOn_def VehicleOff_def Ticker_def

subsection \<open>What each step leaves alone\<close>

lemma changed_unfold:
  "list_ex (\<lambda>indicator. strict_neq (property p indicator) (property n indicator))
     telemetryChangedIndicators
   = (\<not> same_watched p n \<or> nan_watched n)"
  by (auto simp add: telemetryChangedIndicators_def property_def same_watched_def
      nan_watched_def)

lemma message_cases:
  shows "has_message v \<Longrightarrow> \<exists>m. message v = Inr m"
    and "\<not> has_message v \<Longrightarrow> message v = Inl TypeError"
  by (cases v; simp add: has_message_def)+

lemma handleError_frame:
  shows "configuration (snd (handleError err c s)) = configuration s"
    and "currentTelemetry (snd (handleError err c s)) = currentTelemetry s"
    and "http_requests (snd (handleError err c s)) = http_requests s"
    and "bus (snd (handleError err c s)) = bus s"
    and "tickerSubscription (snd (handleError err c s)) = tickerSubscription s"
    and "vehicleOnSubscription (snd (handleError err c s)) = vehicleOnSubscription s"
    and "vehicleOffSubscription (snd (handleError err c s)) = vehicleOffSubscription s"
    and "console (snd (handleError err c s)) = console s @ [Print_Error c err]"
  by (simp_all add: handleError_def OvmsNotify_Raise_def print_def Let_def split: sum.splits)


lemma handleError_TypeError:
  assumes "\<not> has_message err"
  shows "handleError err c s = (Inl TypeError, s\<lparr>console := console s @ [Print_Error c err]\<rparr>)"
  using message_cases(2)[OF assms] by (simp add: handleError_def print_def Let_def)

lemma loadConfig_Inr:
  assumes "loadConfig e s = (Inr config, s1)"
  shows "configuration s1 = Some config"
    and "currentTelemetry s1 = currentTelemetry s"
    and "http_requests s1 = http_requests s"
  using assms
  by (auto simp add: loadConfig_def print_def Let_def split: option.splits sum.splits)

lemma loadConfig_frame:
  shows "bus (snd (loadConfig e s)) = bus s"
    and "tickerSubscription (snd (loadConfig e s)) = tickerSubscription s"
    and "vehicleOnSubscription (snd (loadConfig e s)) = vehicleOnSubscription s"
    and "vehicleOffSubscription (snd (loadConfig e s)) = vehicleOffSubscription s"
  by (simp_all add: loadConfig_def print_def Let_def split: option.splits sum.splits)

lemma getTelemetry_Inr:
  assumes "getTelemetry e s = (Inr t, s1)"
  shows "\<exists>config. configuration s1 = Some config"
    and "currentTelemetry s1 = currentTelemetry s"
    and "http_requests s1 = http_requests s"
  using assms
  by (auto simp add: getTelemetry_def split: prod.splits sum.splits dest: loadConfig_Inr)

lemma getTelemetry_frame:
  shows "bus (snd (getTelemetry e s)) = bus s"
    and "tickerSubscription (snd (getTelemetry e s)) = tickerSubscription s"
    and "vehicleOnSubscription (snd (getTelemetry e s)) = vehicleOnSubscription s"
    and "vehicleOffSubscription (snd (getTelemetry e s)) = vehicleOffSubscription s"
  using loadConfig_frame[of e s]
  by (auto simp add: getTelemetry_def split: prod.splits sum.splits)

lemma condition_frame:
  assumes "sendTelemetry_condition f t s = (b, s')"
  shows "configuration s' = configuration s"
    and "currentTelemetry s' = currentTelemetry s"
    and "http_requests s' = http_requests s"
    and "bus s' = bus s"
    and "notifications s' = notifications s"
    and "tickerSubscription s' = tickerSubscription s"
    and "vehicleOnSubscription s' = vehicleOnSubscription s"
    and "vehicleOffSubscription s' = vehicleOffSubscription s"
  using assms
  by (auto simp add: sendTelemetry_condition_def isTelemetryValidAndHasChanged_def print_def
      Let_def split: option.splits if_splits)

lemma gate_leaves_trace:
  "console (snd (isTelemetryValidAndHasChanged p t s)) \<noteq> console s"
  by (simp add: isTelemetryValidAndHasChanged_def print_def Let_def)

lemma gate_value:
  assumes "currentTelemetry s = Some prev"
  shows "fst (sendTelemetry_condition False next s) =
           (js_add (soh next) (soc next) \<noteq> Num 0 \<and> (\<not> same_watched prev next \<or> nan_watched next))"
    and "fst (isTelemetryValidAndHasChanged prev next s) =
           fst (sendTelemetry_condition False next s)"
  using assms
  by (simp_all add: sendTelemetry_condition_def isTelemetryValidAndHasChanged_def Let_def
      changed_unfold)

lemma updateAbrp_loaded:
  assumes "configuration s = Some config"
  shows "updateAbrp e t s =
           ((case request_error e of Some err \<Rightarrow> Inl err | None \<Rightarrow> Inr ()),
            s\<lparr>console := console s @ [Print_Sending (url_prefix config) t],
              http_requests := http_requests s @ [(url_prefix config, t)]\<rparr>)"
  using assms
  by (simp add: updateAbrp_def loadConfig_def print_def Let_def split: option.splits)

lemma updateAbrp_frame:
  shows "bus (snd (updateAbrp e t s)) = bus s"
    and "tickerSubscription (snd (updateAbrp e t s)) = tickerSubscription s"
    and "vehicleOnSubscription (snd (updateAbrp e t s)) = vehicleOnSubscription s"
    and "vehicleOffSubscription (snd (updateAbrp e t s)) = vehicleOffSubscription s"
  using loadConfig_frame[of e s]
  by (auto simp add: updateAbrp_def print_def Let_def split: prod.splits sum.splits option.splits)

lemma http_callback_frame:
  shows "currentTelemetry (snd (http_callback r s)) = currentTelemetry s"
    and "configuration (snd (http_callback r s)) = configuration s"
    and "http_requests (snd (http_callback r s)) = http_requests s"
    and "bus (snd (http_callback r s)) = bus s"
    and "tickerSubscription (snd (http_callback r s)) = tickerSubscription s"
  by (cases r; simp add: http_done_def http_fail_def handleError_frame)+

lemma http_callbacks_frame:
  shows "currentTelemetry (http_callbacks rs s) = currentTelemetry s"
    and "configuration (http_callbacks rs s) = configuration s"
    and "http_requests (http_callbacks rs s) = http_requests s"
    and "bus (http_callbacks rs s) = bus s"
    and "tickerSubscription (http_callbacks rs s) = tickerSubscription s"
  unfolding http_callbacks_def
  by (induction rs arbitrary: s; simp add: http_callback_frame)+

subsection \<open>One sample-and-send cycle\<close>

text \<open>
  Once the sample is taken, the cycle issues exactly one request when the condition
  holds and none otherwise, and commits the sample in the first case only, whatever
  the transport throws at the call and whatever the handler does with it.
\<close>

lemma sendTelemetry_cycle:
  assumes g: "getTelemetry e s = (Inr t, s1)"
    and c: "sendTelemetry_condition f t s1 = (b, s2)"
  shows "http_requests (snd (sendTelemetry f e s)) =
           http_requests s @ (if b then [(url_prefix (the (configuration s1)), t)] else [])"
    and "currentTelemetry (snd (sendTelemetry f e s)) =
           (if b then Some t else currentTelemetry s)"
    and "b \<Longrightarrow> sendTelemetry_try f e s = updateAbrp e t (s2\<lparr>currentTelemetry := Some t\<rparr>)"
proof -
  obtain config where cfg: "configuration s1 = Some config"
    using getTelemetry_Inr(1)[OF g] by auto
  have cfg2: "configuration s2 = Some config"
    using cfg condition_frame(1)[OF c] by simp
  have u: "updateAbrp e t (s2\<lparr>currentTelemetry := Some t\<rparr>) =
           ((case request_error e of Some err \<Rightarrow> Inl err | None \<Rightarrow> Inr ()),
            s2\<lparr>currentTelemetry := Some t,
               console := console s2 @ [Print_Sending (url_prefix config) t],
               http_requests := http_requests s2 @ [(url_prefix config, t)]\<rparr>)"
    using cfg2 by (simp add: updateAbrp_loaded[where config = config])
  have r: "http_requests s2 = http_requests s" "currentTelemetry s2 = currentTelemetry s"
    using getTelemetry_Inr[OF g] condition_frame[OF c] by simp_all
  show "http_requests (snd (sendTelemetry f e s)) =
           http_requests s @ (if b then [(url_prefix (the (configuration s1)), t)] else [])"
    using g c u r cfg
    by (cases b; cases "request_error e")
       (simp_all add: sendTelemetry_def sendTelemetry_try_def try_catch_def handleError_frame)
  show "currentTelemetry (snd (sendTelemetry f e s)) =
           (if b then Some t else currentTelemetry s)"
    using g c u r
    by (cases b; cases "request_error e")
       (simp_all add: sendTelemetry_def sendTelemetry_try_def try_catch_def handleError_frame)
  show "b \<Longrightarrow> sendTelemetry_try f e s = updateAbrp e t (s2\<lparr>currentTelemetry := Some t\<rparr>)"
    using g c by (simp add: sendTelemetry_try_def)
qed

lemma sendTelemetry_payloads:
  assumes "getTelemetry e s = (Inr t, s1)"
    and "sendTelemetry_condition f t s1 = (b, s2)"
  shows "map snd (http_requests (snd (sendTelemetry f e s))) =
           map snd (http_requests s) @ (if b then [t] else [])"
  using sendTelemetry_cycle(1)[OF assms] by simp

lemma sendTelemetry_try_frame:
  "bus (snd (sendTelemetry_try f e s)) = bus s
   \<and> tickerSubscription (snd (sendTelemetry_try f e s)) = tickerSubscription s
   \<and> vehicleOnSubscription (snd (sendTelemetry_try f e s)) = vehicleOnSubscription s
   \<and> vehicleOffSubscription (snd (sendTelemetry_try f e s)) = vehicleOffSubscription s"
proof -
  obtain r s1 where g: "getTelemetry e s = (r, s1)" by (cases "getTelemetry e s")
  have f1: "bus s1 = bus s" "tickerSubscription s1 = tickerSubscription s"
    "vehicleOnSubscription s1 = vehicleOnSubscription s"
    "vehicleOffSubscription s1 = vehicleOffSubscription s"
    using getTelemetry_frame[of e s] g by simp_all
  show ?thesis
  proof (cases r)
    case (Inl err)
    then show ?thesis using g f1 by (simp add: sendTelemetry_try_def)
  next
    case (Inr t)
    obtain b s2 where c: "sendTelemetry_condition f t s1 = (b, s2)"
      by (cases "sendTelemetry_condition f t s1")
    show ?thesis
      using g Inr c f1 condition_frame[OF c]
        updateAbrp_frame[of e t "s2\<lparr>currentTelemetry := Some t\<rparr>"]
      by (cases b) (simp_all add: sendTelemetry_try_def)
  qed
qed

lemma sendTelemetry_frame:
  shows "bus (snd (sendTelemetry f e s)) = bus s"
    and "tickerSubscription (snd (sendTelemetry f e s)) = tickerSubscription s"
    and "vehicleOnSubscription (snd (sendTelemetry f e s)) = vehicleOnSubscription s"
    and "vehicleOffSubscription (snd (sendTelemetry f e s)) = vehicleOffSubscription s"
proof -
  obtain r s1 where b: "sendTelemetry_try f e s = (r, s1)" by (cases "sendTelemetry_try f e s")
  have f1: "bus s1 = bus s" "tickerSubscription s1 = tickerSubscription s"
    "vehicleOnSubscription s1 = vehicleOnSubscription s"
    "vehicleOffSubscription s1 = vehicleOffSubscription s"
    using sendTelemetry_try_frame[of f e s] b by simp_all
  show "bus (snd (sendTelemetry f e s)) = bus s"
    and "tickerSubscription (snd (sendTelemetry f e s)) = tickerSubscription s"
    and "vehicleOnSubscription (snd (sendTelemetry f e s)) = vehicleOnSubscription s"
    and "vehicleOffSubscription (snd (sendTelemetry f e s)) = vehicleOffSubscription s"
    using b f1 by (cases r; simp add: sendTelemetry_def try_catch_def handleError_frame)+
qed

subsection \<open>The change gate\<close>

text \<open>
  C1, as stated, fails for a sample with a watched number that is NaN: \<^verbatim>\<open>soh + soc\<close>
  is then NaN and not zero, and \<^verbatim>\<open>!==\<close> holds between NaN and NaN, so the gate
  accepts a sample equal to the previous one in every field and the cycle sends it
  again.
\<close>

theorem identical_sample_with_nan_is_resent:
  "currentTelemetry dimmed = Some faded
   \<and> js_add (soh faded) (soc faded) \<noteq> Num 0
   \<and> same_watched faded faded
   \<and> fst (sendTelemetry_condition False faded dimmed) = True
   \<and> getTelemetry (host faded) dimmed = (Inr faded, dimmed)
   \<and> map snd (http_requests (snd (sendTelemetry False (host faded) dimmed))) = [faded]"
  by (simp add: dimmed_def same_watched_def concrete_defs)

text \<open>
  C1, amended.  With a previous accepted sample \<open>prev\<close> and a next sample for which
  \<^verbatim>\<open>soh + soc === 0\<close> is false, the condition of an unforced send is true exactly
  when one of the eight watched fields \<open>soc\<close>, \<open>soh\<close>, \<open>lat\<close>, \<open>lon\<close>, \<open>alt\<close>,
  \<open>is_charging\<close>, \<open>batt_temp\<close>, \<open>ext_temp\<close> differs between the two or one of the
  watched numbers of the next sample is NaN, and that is the value
  \<^verbatim>\<open>isTelemetryValidAndHasChanged\<close> returns.  When no watched number of \<open>prev\<close> is
  NaN, a sample that differs from \<open>prev\<close> in \<open>utc\<close>, \<open>speed\<close>, \<open>car_model\<close>,
  \<open>voltage\<close>, \<open>current\<close> or \<open>power\<close> only is rejected, and so is \<open>prev\<close>
  itself.  A cycle that samples \<open>next\<close> issues a request exactly when the condition
  is true.
\<close>

theorem change_gate_iff_strictly_differs:
  assumes "currentTelemetry s = Some prev"
    and "js_add (soh next) (soc next) \<noteq> Num 0"
  shows "fst (sendTelemetry_condition False next s) =
           (soc prev \<noteq> soc next \<or> soh prev \<noteq> soh next \<or> lat prev \<noteq> lat next \<or>
            lon prev \<noteq> lon next \<or> alt prev \<noteq> alt next \<or>
            is_charging prev \<noteq> is_charging next \<or> batt_temp prev \<noteq> batt_temp next \<or>
            ext_temp prev \<noteq> ext_temp next \<or>
            soc next = NaN \<or> soh next = NaN \<or> is_charging next = NaN \<or>
            batt_temp next = NaN \<or> ext_temp next = NaN)
         \<and> fst (isTelemetryValidAndHasChanged prev next s) =
             fst (sendTelemetry_condition False next s)
         \<and> (\<not> nan_watched prev \<longrightarrow>
               fst (sendTelemetry_condition False
                     (prev\<lparr>utc := u, speed := v, car_model := m, voltage := w, current := c,
                           power_kw := p\<rparr>) s) = False
               \<and> fst (sendTelemetry_condition False prev s) = False)
         \<and> (\<forall>e s1. getTelemetry e s = (Inr next, s1) \<longrightarrow>
               map snd (http_requests (snd (sendTelemetry False e s))) =
                 map snd (http_requests s) @
                 (if same_watched prev next \<and> \<not> nan_watched next then [] else [next]))"
proof -
  have gate: "fst (sendTelemetry_condition False next s') =
                (\<not> same_watched prev next \<or> nan_watched next)"
    if "currentTelemetry s' = Some prev" for s'
    using gate_value(1)[OF that, of "next"] assms(2) by simp
  have "map snd (http_requests (snd (sendTelemetry False e s))) =
          map snd (http_requests s) @
          (if same_watched prev next \<and> \<not> nan_watched next then [] else [next])"
    if g: "getTelemetry e s = (Inr next, s1)" for e s1
  proof -
    obtain b s2 where c: "sendTelemetry_condition False next s1 = (b, s2)"
      by (cases "sendTelemetry_condition False next s1")
    have "b = (\<not> same_watched prev next \<or> nan_watched next)"
      using gate[of s1] c assms(1) getTelemetry_Inr(2)[OF g] by simp
    then show ?thesis using sendTelemetry_payloads[OF g c] by auto
  qed
  moreover have "fst (sendTelemetry_condition False next s) =
           (soc prev \<noteq> soc next \<or> soh prev \<noteq> soh next \<or> lat prev \<noteq> lat next \<or>
            lon prev \<noteq> lon next \<or> alt prev \<noteq> alt next \<or>
            is_charging prev \<noteq> is_charging next \<or> batt_temp prev \<noteq> batt_temp next \<or>
            ext_temp prev \<noteq> ext_temp next \<or>
            soc next = NaN \<or> soh next = NaN \<or> is_charging next = NaN \<or>
            batt_temp next = NaN \<or> ext_temp next = NaN)"
    using gate[OF assms(1)] by (auto simp add: same_watched_def nan_watched_def)
  moreover have "fst (isTelemetryValidAndHasChanged prev next s) =
             fst (sendTelemetry_condition False next s)"
    using gate_value(2)[OF assms(1)] .
  moreover have "fst (sendTelemetry_condition False
                  (prev\<lparr>utc := u, speed := v, car_model := m, voltage := w, current := c,
                        power_kw := p\<rparr>) s) = False
                 \<and> fst (sendTelemetry_condition False prev s) = False"
    if "\<not> nan_watched prev"
    using that gate_value(1)[OF assms(1)]
    by (simp add: same_watched_def nan_watched_def)
  ultimately show ?thesis by blast
qed

theorem change_gate_iff_strictly_differs_witness:
  "currentTelemetry sampled = Some parked
   \<and> js_add (soh (parked\<lparr>is_charging := Num 1\<rparr>)) (soc (parked\<lparr>is_charging := Num 1\<rparr>)) \<noteq> Num 0
   \<and> \<not> nan_watched parked
   \<and> fst (sendTelemetry_condition False (parked\<lparr>is_charging := Num 1\<rparr>) sampled) = True
   \<and> fst (sendTelemetry_condition False
            (parked\<lparr>utc := Num 1600000060, speed := Num 50, car_model := ''@@:@@:@@:@@:@@'',
                    voltage := Num 355, current := Num 12, power_kw := ''4.3''\<rparr>) sampled) = False
   \<and> fst (sendTelemetry_condition False parked sampled) = False"
proof -
  have h1: "currentTelemetry sampled = Some parked"
    by (simp add: sampled_def)
  have h2: "js_add (soh (parked\<lparr>is_charging := Num 1\<rparr>)) (soc (parked\<lparr>is_charging := Num 1\<rparr>))
              \<noteq> Num 0"
    by (simp add: parked_def)
  have h3: "\<not> nan_watched parked"
    by (simp add: nan_watched_def parked_def)
  show ?thesis
    using h1 h2 h3
      change_gate_iff_strictly_differs [OF h1 h2, where u = "Num 1600000060" and v = "Num 50"
        and m = "''@@:@@:@@:@@:@@''" and w = "Num 355" and c = "Num 12" and p = "''4.3''"]
    by (simp add: parked_def)
qed

text \<open>
  C2, as stated, fails on the first sample of a session: with no previous accepted
  sample the condition is true before the validity check is reached, and a sample whose
  \<open>soh + soc\<close> is zero is sent.
\<close>

theorem unreadable_first_sample_is_sent:
  "currentTelemetry loaded = None
   \<and> js_add (soh unreadable) (soc unreadable) = Num 0
   \<and> fst (sendTelemetry_condition False unreadable loaded) = True
   \<and> map snd (http_requests (snd (sendTelemetry False (host unreadable) loaded))) = [unreadable]"
  by (simp add: concrete_defs)

text \<open>
  C2, amended.  For every sample with \<open>soh + soc = 0\<close> and every previous accepted
  sample that is not null, an unforced cycle does not send the sample: the condition is
  false, no request is issued and the previous sample stays the current one.
\<close>

theorem invalid_sample_not_sent_after_first:
  assumes "currentTelemetry s = Some prev"
    and "getTelemetry e s = (Inr t, s1)"
    and "js_add (soh t) (soc t) = Num 0"
  shows "fst (sendTelemetry_condition False t s1) = False
         \<and> http_requests (snd (sendTelemetry False e s)) = http_requests s
         \<and> currentTelemetry (snd (sendTelemetry False e s)) = Some prev"
proof -
  have p: "currentTelemetry s1 = Some prev"
    using assms(1) getTelemetry_Inr(2)[OF assms(2)] by simp
  have "fst (sendTelemetry_condition False t s1) = False"
    using gate_value(1)[OF p, of t] assms(3) by simp
  then obtain s2 where c: "sendTelemetry_condition False t s1 = (False, s2)"
    by (cases "sendTelemetry_condition False t s1") simp
  show ?thesis
    using c sendTelemetry_cycle(1,2)[OF assms(2) c] assms(1) by simp
qed

theorem invalid_sample_not_sent_after_first_witness:
  "currentTelemetry sampled = Some parked
   \<and> getTelemetry (host unreadable) sampled = (Inr unreadable, sampled)
   \<and> js_add (soh unreadable) (soc unreadable) = Num 0
   \<and> http_requests (snd (sendTelemetry False (host unreadable) sampled)) = []
   \<and> currentTelemetry (snd (sendTelemetry False (host unreadable) sampled)) = Some parked"
proof -
  have h1: "currentTelemetry sampled = Some parked"
    by (simp add: sampled_def)
  have h2: "getTelemetry (host unreadable) sampled = (Inr unreadable, sampled)"
    by (simp add: concrete_defs)
  have h3: "js_add (soh unreadable) (soc unreadable) = Num 0"
    by (simp add: unreadable_def)
  have "http_requests sampled = []"
    by (simp add: concrete_defs)
  then show ?thesis
    using h1 h2 h3 invalid_sample_not_sent_after_first [OF h1 h2 h3] by simp
qed

text \<open>
  C3.  With no previous accepted sample, an unforced cycle accepts every sample it
  takes: the condition is true without the gate being evaluated, the sample is the
  payload of the one request issued, and it becomes the current sample.
\<close>

theorem first_sample_always_sent:
  assumes "currentTelemetry s = None"
    and "getTelemetry e s = (Inr t, s1)"
  shows "sendTelemetry_condition False t s1 = (True, s1)
         \<and> map snd (http_requests (snd (sendTelemetry False e s))) = map snd (http_requests s) @ [t]
         \<and> currentTelemetry (snd (sendTelemetry False e s)) = Some t"
proof -
  have c: "sendTelemetry_condition False t s1 = (True, s1)"
    using assms(1) getTelemetry_Inr(2)[OF assms(2)] by (simp add: sendTelemetry_condition_def)
  show ?thesis
    using c sendTelemetry_payloads[OF assms(2) c] sendTelemetry_cycle(2)[OF assms(2) c] by simp
qed

theorem first_sample_always_sent_witness:
  "currentTelemetry configured = None
   \<and> getTelemetry (host parked) configured = (Inr parked, configured)
   \<and> map snd (http_requests (snd (sendTelemetry False (host parked) configured))) = [parked]
   \<and> currentTelemetry (snd (sendTelemetry False (host parked) configured)) = Some parked"
proof -
  have h1: "currentTelemetry configured = None"
    by (simp add: configured_def loaded_def)
  have h2: "getTelemetry (host parked) configured = (Inr parked, configured)"
    by (simp add: concrete_defs)
  have "http_requests configured = []"
    by (simp add: configured_def loaded_def)
  then show ?thesis
    using h1 h2 first_sample_always_sent [OF h1 h2] by simp
qed

text \<open>
  C4.  A forced cycle sends every sample it takes, also one whose \<open>soh + soc\<close> is
  zero: the condition is true and leaves the state as it was, whereas an evaluation of
  \<^verbatim>\<open>isTelemetryValidAndHasChanged\<close> always prints, so neither the validity check nor
  the comparison has run; the sample is the payload of the one request issued and
  becomes the current sample.
\<close>

theorem forced_send_bypasses_gate:
  assumes "getTelemetry e s = (Inr t, s1)"
  shows "sendTelemetry_condition True t s1 = (True, s1)
         \<and> (\<forall>previous. snd (isTelemetryValidAndHasChanged previous t s1) \<noteq> s1)
         \<and> map snd (http_requests (snd (sendTelemetry True e s))) = map snd (http_requests s) @ [t]
         \<and> currentTelemetry (snd (sendTelemetry True e s)) = Some t"
proof -
  have c: "sendTelemetry_condition True t s1 = (True, s1)"
    by (simp add: sendTelemetry_condition_def split: option.splits)
  have "snd (isTelemetryValidAndHasChanged previous t s1) \<noteq> s1" for previous
    using gate_leaves_trace[of previous t s1] by auto
  then show ?thesis
    using c sendTelemetry_payloads[OF assms c] sendTelemetry_cycle(2)[OF assms c] by simp
qed

theorem forced_send_bypasses_gate_witness:
  "getTelemetry (host unreadable) sampled = (Inr unreadable, sampled)
   \<and> js_add (soh unreadable) (soc unreadable) = Num 0
   \<and> currentTelemetry sampled = Some parked
   \<and> sendTelemetry_condition True unreadable sampled = (True, sampled)
   \<and> map snd (http_requests (snd (sendTelemetry True (host unreadable) sampled))) = [unreadable]
   \<and> currentTelemetry (snd (sendTelemetry True (host unreadable) sampled)) = Some unreadable"
proof -
  have h: "getTelemetry (host unreadable) sampled = (Inr unreadable, sampled)"
    by (simp add: concrete_defs)
  have "http_requests sampled = []" "js_add (soh unreadable) (soc unreadable) = Num 0"
    "currentTelemetry sampled = Some parked"
    by (simp_all add: concrete_defs)
  then show ?thesis
    using h forced_send_bypasses_gate [OF h] by simp
qed

subsection \<open>Route start and end\<close>

text \<open>
  \<^verbatim>\<open>startRoute\<close> subscribes exactly when no ticker subscription is held, the forced
  send has returned and \<^verbatim>\<open>PubSub.subscribe\<close> has not thrown.
\<close>

lemma startRoute_ticker:
  shows "live Ticker OnTicker (snd (startRoute e s)) =
           live Ticker OnTicker s @
           (if tickerSubscription s = None \<and> fst (sendTelemetry True e (unloadConfig s)) = Inr ()
               \<and> subscribe_error e = None
            then [(Suc (lastUid (bus s)), Ticker, OnTicker)] else [])"
    and "tickerSubscription (snd (startRoute e s)) =
           (if tickerSubscription s = None \<and> fst (sendTelemetry True e (unloadConfig s)) = Inr ()
               \<and> subscribe_error e = None
            then Some (Suc (lastUid (bus s))) else tickerSubscription s)"
proof -
  obtain r s1 where a: "sendTelemetry True e (unloadConfig s) = (r, s1)"
    by (cases "sendTelemetry True e (unloadConfig s)")
  have f: "tickerSubscription s1 = tickerSubscription s" "bus s1 = bus s"
    using sendTelemetry_frame(1,2)[of True e "unloadConfig s"] a
    by (simp_all add: unloadConfig_def)
  have l: "live Ticker OnTicker s1 = live Ticker OnTicker s"
    using f(2) by (simp add: live_def)
  have "live Ticker OnTicker (snd (startRoute e s)) =
           live Ticker OnTicker s @
           (if tickerSubscription s = None \<and> r = Inr () \<and> subscribe_error e = None
            then [(Suc (lastUid (bus s)), Ticker, OnTicker)] else [])
        \<and> tickerSubscription (snd (startRoute e s)) =
           (if tickerSubscription s = None \<and> r = Inr () \<and> subscribe_error e = None
            then Some (Suc (lastUid (bus s))) else tickerSubscription s)"
  proof (cases r)
    case (Inl v)
    then show ?thesis
      using a f l
      by (simp add: startRoute_def startRoute_try_def try_catch_def seq_def handleError_frame
          live_def)
  next
    case (Inr u)
    show ?thesis
    proof (cases "tickerSubscription s")
      case (Some token)
      then show ?thesis
        using a Inr f l
        by (simp add: startRoute_def startRoute_try_def try_catch_def seq_def live_def
            OvmsNotify_Raise_def print_def)
    next
      case None
      show ?thesis
      proof (cases "subscribe_error e")
        case (Some v)
        then show ?thesis
          using a Inr None f l
          by (simp add: startRoute_def startRoute_try_def try_catch_def seq_def
              handleError_frame live_def)
      next
        case n: None
        then show ?thesis
          using a Inr None f l
          by (simp add: startRoute_def startRoute_try_def try_catch_def seq_def live_def
              OvmsNotify_Raise_def print_def PubSub_subscribe_def Let_def)
      qed
    qed
  qed
  then show "live Ticker OnTicker (snd (startRoute e s)) =
           live Ticker OnTicker s @
           (if tickerSubscription s = None \<and> fst (sendTelemetry True e (unloadConfig s)) = Inr ()
               \<and> subscribe_error e = None
            then [(Suc (lastUid (bus s)), Ticker, OnTicker)] else [])"
    and "tickerSubscription (snd (startRoute e s)) =
           (if tickerSubscription s = None \<and> fst (sendTelemetry True e (unloadConfig s)) = Inr ()
               \<and> subscribe_error e = None
            then Some (Suc (lastUid (bus s))) else tickerSubscription s)"
    using a by simp_all
qed



text \<open>
  In \<^verbatim>\<open>sendlivedata2abrp.js\<close> the guard \<^verbatim>\<open>if (!tickerSubscription)\<close> keeps the
  number of live ticker subscriptions at one at most over any run of \<^verbatim>\<open>startRoute\<close>
  calls, whatever the host answers.
\<close>

lemma startRoute_keeps_ticker_invariant:
  assumes "length (live Ticker OnTicker s) \<le> 1"
    and "tickerSubscription s = None \<longrightarrow> live Ticker OnTicker s = []"
  shows "length (live Ticker OnTicker (snd (startRoute e s))) \<le> 1"
    and "tickerSubscription (snd (startRoute e s)) = None \<longrightarrow>
           live Ticker OnTicker (snd (startRoute e s)) = []"
  using assms by (simp_all add: startRoute_ticker)

lemma startRoutes_at_most_one_ticker:
  assumes "length (live Ticker OnTicker s) \<le> 1"
    and "tickerSubscription s = None \<longrightarrow> live Ticker OnTicker s = []"
  shows "length (live Ticker OnTicker (startRoutes es s)) \<le> 1"
  using assms
proof (induction es arbitrary: s)
  case Nil
  then show ?case by (simp add: startRoutes_def)
next
  case (Cons e es)
  have "length (live Ticker OnTicker (startRoutes es (snd (startRoute e s)))) \<le> 1"
    using Cons.IH[of "snd (startRoute e s)"] startRoute_keeps_ticker_invariant[OF Cons.prems, of e]
    by simp
  then show ?case by (simp add: startRoutes_def)
qed

lemma startRoutes_loaded_example:
  "live Ticker OnTicker (startRoutes [host parked, host unreadable, blind] loaded) =
     [(1, Ticker, OnTicker)]"
proof -
  have 0: "fst (sendTelemetry True (host parked) (unloadConfig loaded)) = Inr ()"
    by (simp add: unloadConfig_def concrete_defs)
  have 1: "live Ticker OnTicker (snd (startRoute (host parked) loaded)) = [(1, Ticker, OnTicker)]"
    "tickerSubscription (snd (startRoute (host parked) loaded)) = Some 1"
    using 0 by (simp_all add: startRoute_ticker) (simp_all add: loaded_def live_def host_def)
  have 2: "live Ticker OnTicker (snd (startRoute (host unreadable)
              (snd (startRoute (host parked) loaded)))) = [(1, Ticker, OnTicker)]"
    "tickerSubscription (snd (startRoute (host unreadable)
              (snd (startRoute (host parked) loaded)))) = Some 1"
    using 1 by (simp_all add: startRoute_ticker)
  show ?thesis
    using 2 by (simp add: startRoutes_def startRoute_ticker)
qed

text \<open>Each \<^verbatim>\<open>startRoute\<close> of \<^verbatim>\<open>abrp2.js\<close> adds a ticker subscription.\<close>

lemma abrp2_startRoute_adds_ticker:
  "live Ticker OnTicker (snd (abrp2_startRoute s)) =
     live Ticker OnTicker s @ [(Suc (lastUid (bus s)), Ticker, OnTicker)]"
  by (simp add: abrp2_startRoute_def abrp2_startRoute_try_def try_catch_def PubSub_subscribe_def
      Let_def live_def OvmsNotify_Raise_def print_def)

text \<open>
  C5.  The claim holds for \<^verbatim>\<open>sendlivedata2abrp.js\<close> (above) and fails for the
  \<^verbatim>\<open>startRoute\<close> of \<^verbatim>\<open>abrp2.js\<close>, which subscribes without looking at
  \<^verbatim>\<open>tickerSubscription\<close>: on the freshly loaded module two calls leave two live
  ticker subscriptions, the variable holds the second token only, and \<^verbatim>\<open>endRoute\<close>
  then removes that one and leaves the first subscription live with the variable null.
\<close>

theorem abrp2_second_start_duplicates_ticker:
  "live Ticker OnTicker (snd (abrp2_startRoute (snd (abrp2_startRoute loaded)))) =
     [(1, Ticker, OnTicker), (2, Ticker, OnTicker)]
   \<and> tickerSubscription (snd (abrp2_startRoute (snd (abrp2_startRoute loaded)))) = Some 2
   \<and> live Ticker OnTicker
        (snd (abrp2_endRoute (snd (abrp2_startRoute (snd (abrp2_startRoute loaded)))))) =
     [(1, Ticker, OnTicker)]
   \<and> tickerSubscription
        (snd (abrp2_endRoute (snd (abrp2_startRoute (snd (abrp2_startRoute loaded)))))) = None"
  by (simp add: abrp2_startRoute_def abrp2_startRoute_try_def abrp2_endRoute_def
      abrp2_endRoute_try_def try_catch_def PubSub_subscribe_def PubSub_unsubscribe_def
      Let_def live_def OvmsNotify_Raise_def print_def loaded_def)



subsection \<open>Automatic start and stop\<close>

lemma autoSend_enabled:
  assumes "vehicleOnSubscription s = Some a" and "vehicleOffSubscription s = Some b"
  shows "autoSend True s = print (Line (''Vehicle on and off topics subscribed'' @ newline)) s"
  using assms by (simp add: autoSend_def)

lemma autoSend_enables:
  shows "vehicleOnSubscription (autoSend True s) \<noteq> None"
    and "vehicleOffSubscription (autoSend True s) \<noteq> None"
  by (simp_all add: autoSend_def bus_defs split: option.splits)

lemma autoSend_first:
  shows "vehicleOnSubscription s = None \<Longrightarrow> live VehicleOn OnVehicleOn s = [] \<Longrightarrow>
           length (live VehicleOn OnVehicleOn (autoSend True s)) = 1"
    and "vehicleOffSubscription s = None \<Longrightarrow> live VehicleOff OnVehicleOff s = [] \<Longrightarrow>
           length (live VehicleOff OnVehicleOff (autoSend True s)) = 1"
  by (simp_all add: autoSend_def bus_defs split: option.splits)

lemma enable_enabled:
  assumes "vehicleOnSubscription s = Some a" and "vehicleOffSubscription s = Some b"
  shows "enableSendBetweenVehicleOnAndOff s =
           print (Line (''Vehicle on and off topics subscribed'' @ newline)) s"
  using assms by (simp add: enableSendBetweenVehicleOnAndOff_def)

lemma enable_enables:
  shows "vehicleOnSubscription (enableSendBetweenVehicleOnAndOff s) \<noteq> None"
    and "vehicleOffSubscription (enableSendBetweenVehicleOnAndOff s) \<noteq> None"
  by (simp_all add: enableSendBetweenVehicleOnAndOff_def bus_defs split: option.splits)

lemma enable_first:
  shows "vehicleOnSubscription s = None \<Longrightarrow> live VehicleOn OnVehicleOn s = [] \<Longrightarrow>
           length (live VehicleOn OnVehicleOn (enableSendBetweenVehicleOnAndOff s)) = 1"
    and "vehicleOffSubscription s = None \<Longrightarrow> live VehicleOff OnVehicleOff s = [] \<Longrightarrow>
           length (live VehicleOff OnVehicleOff (enableSendBetweenVehicleOnAndOff s)) = 1"
  by (simp_all add: enableSendBetweenVehicleOnAndOff_def bus_defs split: option.splits)

text \<open>
  C7.  From a state in which neither vehicle topic is subscribed, two enabling calls in
  a row leave exactly one live vehicle-on and one live vehicle-off subscription; the
  second call leaves the bus and both stored handles as the first call left them.  This
  holds for \<^verbatim>\<open>autoSend(1)\<close> of \<^verbatim>\<open>sendlivedata2abrp.js\<close> and for
  \<^verbatim>\<open>enableSendBetweenVehicleOnAndOff\<close> of \<^verbatim>\<open>slack.js\<close>.
\<close>

theorem enable_twice_keeps_one_subscription_each:
  assumes "vehicleOnSubscription s = None" and "vehicleOffSubscription s = None"
    and "live VehicleOn OnVehicleOn s = []" and "live VehicleOff OnVehicleOff s = []"
  shows "length (live VehicleOn OnVehicleOn (autoSend True (autoSend True s))) = 1
         \<and> length (live VehicleOff OnVehicleOff (autoSend True (autoSend True s))) = 1
         \<and> bus (autoSend True (autoSend True s)) = bus (autoSend True s)
         \<and> vehicleOnSubscription (autoSend True (autoSend True s)) =
             vehicleOnSubscription (autoSend True s)
         \<and> vehicleOffSubscription (autoSend True (autoSend True s)) =
             vehicleOffSubscription (autoSend True s)
         \<and> length (live VehicleOn OnVehicleOn
             (enableSendBetweenVehicleOnAndOff (enableSendBetweenVehicleOnAndOff s))) = 1
         \<and> length (live VehicleOff OnVehicleOff
             (enableSendBetweenVehicleOnAndOff (enableSendBetweenVehicleOnAndOff s))) = 1
         \<and> bus (enableSendBetweenVehicleOnAndOff (enableSendBetweenVehicleOnAndOff s)) =
             bus (enableSendBetweenVehicleOnAndOff s)
         \<and> vehicleOnSubscription
             (enableSendBetweenVehicleOnAndOff (enableSendBetweenVehicleOnAndOff s)) =
             vehicleOnSubscription (enableSendBetweenVehicleOnAndOff s)
         \<and> vehicleOffSubscription
             (enableSendBetweenVehicleOnAndOff (enableSendBetweenVehicleOnAndOff s)) =
             vehicleOffSubscription (enableSendBetweenVehicleOnAndOff s)"
proof -
  obtain a b where ab: "vehicleOnSubscription (autoSend True s) = Some a"
    "vehicleOffSubscription (autoSend True s) = Some b"
    using autoSend_enables[of s] by auto
  have 1: "autoSend True (autoSend True s) =
             print (Line (''Vehicle on and off topics subscribed'' @ newline)) (autoSend True s)"
    using autoSend_enabled[OF ab] .
  obtain c d where cd: "vehicleOnSubscription (enableSendBetweenVehicleOnAndOff s) = Some c"
    "vehicleOffSubscription (enableSendBetweenVehicleOnAndOff s) = Some d"
    using enable_enables[of s] by auto
  have 2: "enableSendBetweenVehicleOnAndOff (enableSendBetweenVehicleOnAndOff s) =
             print (Line (''Vehicle on and off topics subscribed'' @ newline))
               (enableSendBetweenVehicleOnAndOff s)"
    using enable_enabled[OF cd] .
  have 3: "live topic cb (print x s') = live topic cb s'" for topic cb x s'
    by (simp add: live_def print_def)
  show ?thesis
    unfolding 1 2 3
    using autoSend_first[of s] enable_first[of s] assms
    by (simp add: print_def)
qed

theorem enable_twice_keeps_one_subscription_each_witness:
  "vehicleOnSubscription loaded = None \<and> vehicleOffSubscription loaded = None
   \<and> live VehicleOn OnVehicleOn loaded = [] \<and> live VehicleOff OnVehicleOff loaded = []
   \<and> live VehicleOn OnVehicleOn (autoSend True (autoSend True loaded)) =
       [(1, VehicleOn, OnVehicleOn)]
   \<and> live VehicleOff OnVehicleOff (autoSend True (autoSend True loaded)) =
       [(2, VehicleOff, OnVehicleOff)]
   \<and> length (live VehicleOn OnVehicleOn
       (enableSendBetweenVehicleOnAndOff (enableSendBetweenVehicleOnAndOff loaded))) = 1
   \<and> bus (autoSend True (autoSend True loaded)) = bus (autoSend True loaded)"
proof -
  have h: "vehicleOnSubscription loaded = None" "vehicleOffSubscription loaded = None"
    "live VehicleOn OnVehicleOn loaded = []" "live VehicleOff OnVehicleOff loaded = []"
    by (simp_all add: loaded_def live_def)
  have "live VehicleOn OnVehicleOn (autoSend True (autoSend True loaded)) =
          [(1, VehicleOn, OnVehicleOn)]"
    "live VehicleOff OnVehicleOff (autoSend True (autoSend True loaded)) =
          [(2, VehicleOff, OnVehicleOff)]"
    by (simp_all add: autoSend_def loaded_def bus_defs)
  then show ?thesis
    using h enable_twice_keeps_one_subscription_each [OF h] by simp
qed

subsection \<open>Exceptions and transport callbacks\<close>









text \<open>
  C9.  The \<^verbatim>\<open>fail\<close> callback of a request changes the state in two places only: it
  prints one line and, when the \<^verbatim>\<open>message\<close> of its argument can be read, raises
  one \<open>error\<close> notification.  The ticker subscription, the bus, the loaded
  configuration and the current sample are as before, for every argument.
\<close>

theorem transport_failure_keeps_session:
  "snd (http_fail err s) =
     s\<lparr>console := console s @ [Print_Error ''HTTP request'' err],
       notifications := notifications s @
         (case message err of
            Inr m \<Rightarrow> [(''error'', ''usr.abrp.status'', ''HTTP request error  - '' @ m)]
          | Inl type_error \<Rightarrow> [])\<rparr>
   \<and> tickerSubscription (snd (http_fail err s)) = tickerSubscription s
   \<and> live Ticker OnTicker (snd (http_fail err s)) = live Ticker OnTicker s
   \<and> bus (snd (http_fail err s)) = bus s
   \<and> configuration (snd (http_fail err s)) = configuration s
   \<and> currentTelemetry (snd (http_fail err s)) = currentTelemetry s"
  by (simp add: http_fail_def handleError_def OvmsNotify_Raise_def print_def live_def Let_def
      split: sum.splits)

theorem transport_failure_keeps_session_witness:
  "configuration (snd (http_fail (Error ''timeout'') routed)) = Some defaultConfiguration
   \<and> currentTelemetry (snd (http_fail (Error ''timeout'') routed)) = Some parked
   \<and> tickerSubscription (snd (http_fail (Error ''timeout'') routed)) = Some 1
   \<and> notifications (snd (http_fail (Error ''timeout'') routed)) =
       [(''error'', ''usr.abrp.status'', ''HTTP request error  - timeout'')]
   \<and> notifications (snd (http_fail (Str ''timeout'') routed)) =
       [(''error'', ''usr.abrp.status'', ''HTTP request error  - undefined'')]
   \<and> currentTelemetry (snd (http_fail Null routed)) = Some parked
   \<and> tickerSubscription (snd (http_fail Null routed)) = Some 1"
  using transport_failure_keeps_session [of "Error ''timeout''" routed]
    transport_failure_keeps_session [of "Str ''timeout''" routed]
    transport_failure_keeps_session [of Null routed]
  by (simp add: routed_def sampled_def configured_def loaded_def)

text \<open>
  C10, as stated, fails in its last part for a committed sample with a watched number
  that is NaN: after the failed send, the next unforced cycle takes a sample equal to
  it in every field and sends it again.
\<close>

theorem nan_sample_is_sent_again_after_failed_send:
  "getTelemetry (offline faded) configured = (Inr faded, configured)
   \<and> currentTelemetry (snd (sendTelemetry False (offline faded) configured)) = Some faded
   \<and> map snd (http_requests (snd (sendTelemetry False (offline faded) configured))) = [faded]
   \<and> same_watched faded faded
   \<and> map snd (http_requests
        (snd (sendTelemetry False (host faded)
               (http_callbacks [Fail (Str ''timeout'')]
                  (snd (sendTelemetry False (offline faded) configured)))))) = [faded, faded]"
  by (simp add: http_callbacks_def http_fail_def same_watched_def concrete_defs)

text \<open>
  C10, amended.  When the condition of a cycle holds, \<^verbatim>\<open>updateAbrp\<close> runs in a state
  whose current sample is already the new one, so the sample is committed also when the
  request throws at the call; no sequence of \<^verbatim>\<open>done\<close> and \<^verbatim>\<open>fail\<close> callbacks
  changes it; and a following unforced cycle whose sample agrees with it on the watched
  fields keeps it and issues no request, unless a watched number of the sample is NaN
  and \<^verbatim>\<open>soh + soc === 0\<close> is false: then the sample is sent again.
\<close>

theorem commit_survives_callbacks_and_blocks_equal_sample:
  assumes "getTelemetry e s = (Inr t, s1)"
    and "sendTelemetry_condition force t s1 = (True, s2)"
  shows "sendTelemetry_try force e s = updateAbrp e t (s2\<lparr>currentTelemetry := Some t\<rparr>)
         \<and> currentTelemetry (snd (sendTelemetry force e s)) = Some t
         \<and> currentTelemetry (http_callbacks rs (snd (sendTelemetry force e s))) = Some t
         \<and> (\<forall>e' t' s3.
               getTelemetry e' (http_callbacks rs (snd (sendTelemetry force e s))) = (Inr t', s3)
               \<longrightarrow> same_watched t t'
               \<longrightarrow> map snd (http_requests
                     (snd (sendTelemetry False e'
                            (http_callbacks rs (snd (sendTelemetry force e s))))))
                   = map snd (http_requests (snd (sendTelemetry force e s))) @
                     (if nan_watched t' \<and> js_add (soh t') (soc t') \<noteq> Num 0 then [t'] else [])
                 \<and> (\<not> nan_watched t' \<longrightarrow>
                       http_requests
                         (snd (sendTelemetry False e'
                                (http_callbacks rs (snd (sendTelemetry force e s)))))
                       = http_requests (snd (sendTelemetry force e s))
                       \<and> currentTelemetry
                           (snd (sendTelemetry False e'
                                  (http_callbacks rs (snd (sendTelemetry force e s)))))
                         = Some t))"
proof -
  let ?a = "snd (sendTelemetry force e s)"
  let ?b = "http_callbacks rs ?a"
  have o: "sendTelemetry_try force e s = updateAbrp e t (s2\<lparr>currentTelemetry := Some t\<rparr>)"
    using sendTelemetry_cycle(3)[OF assms] by simp
  have a: "currentTelemetry ?a = Some t"
    using sendTelemetry_cycle(2)[OF assms] by simp
  have b: "currentTelemetry ?b = Some t" "http_requests ?b = http_requests ?a"
    using a by (simp_all add: http_callbacks_frame)
  have "map snd (http_requests (snd (sendTelemetry False e' ?b)))
          = map snd (http_requests ?a) @
            (if nan_watched t' \<and> js_add (soh t') (soc t') \<noteq> Num 0 then [t'] else [])
        \<and> (\<not> nan_watched t' \<longrightarrow>
              http_requests (snd (sendTelemetry False e' ?b)) = http_requests ?a
              \<and> currentTelemetry (snd (sendTelemetry False e' ?b)) = Some t)"
    if g: "getTelemetry e' ?b = (Inr t', s3)" and w: "same_watched t t'" for e' t' s3
  proof -
    have p: "currentTelemetry s3 = Some t"
      using b(1) getTelemetry_Inr(2)[OF g] by simp
    obtain c s4 where c: "sendTelemetry_condition False t' s3 = (c, s4)"
      by (cases "sendTelemetry_condition False t' s3")
    have v: "c = (nan_watched t' \<and> js_add (soh t') (soc t') \<noteq> Num 0)"
      using gate_value(1)[OF p, of t'] c w by auto
    show ?thesis
      using sendTelemetry_cycle(1,2)[OF g c] sendTelemetry_payloads[OF g c] b v by auto
  qed
  then show ?thesis using o a b by blast
qed

theorem commit_survives_callbacks_and_blocks_equal_sample_witness:
  "getTelemetry (offline parked) configured = (Inr parked, configured)
   \<and> sendTelemetry_condition False parked configured = (True, configured)
   \<and> currentTelemetry (snd (sendTelemetry False (offline parked) configured)) = Some parked
   \<and> map snd (http_requests (snd (sendTelemetry False (offline parked) configured))) = [parked]
   \<and> same_watched parked (parked\<lparr>utc := Num 1600000060, speed := Num 30\<rparr>)
   \<and> \<not> nan_watched (parked\<lparr>utc := Num 1600000060, speed := Num 30\<rparr>)
   \<and> map snd (http_requests
        (snd (sendTelemetry False (host (parked\<lparr>utc := Num 1600000060, speed := Num 30\<rparr>))
               (http_callbacks [Fail (Str ''timeout'')]
                  (snd (sendTelemetry False (offline parked) configured)))))) = [parked]"
proof -
  let ?a = "snd (sendTelemetry False (offline parked) configured)"
  let ?b = "http_callbacks [Fail (Str ''timeout'')] ?a"
  let ?t = "parked\<lparr>utc := Num 1600000060, speed := Num 30\<rparr>"
  have h1: "getTelemetry (offline parked) configured = (Inr parked, configured)"
    by (simp add: concrete_defs)
  have h2: "sendTelemetry_condition False parked configured = (True, configured)"
    by (simp add: concrete_defs)
  have r: "map snd (http_requests ?a) = [parked]"
    by (simp add: concrete_defs)
  have g: "getTelemetry (host ?t) ?b = (Inr ?t, ?b)"
    by (simp add: http_callbacks_def http_fail_def concrete_defs)
  have w: "same_watched parked ?t" "\<not> nan_watched ?t"
    by (simp_all add: same_watched_def nan_watched_def parked_def)
  note th = commit_survives_callbacks_and_blocks_equal_sample
    [OF h1 h2, of "[Fail (Str ''timeout'')]"]
  from th have c: "currentTelemetry ?a = Some parked"
    by blast
  from th g w have "http_requests (snd (sendTelemetry False (host ?t) ?b)) = http_requests ?a"
    by blast
  then show ?thesis
    using h1 h2 r w c by simp
qed

end
